theory Spec2Isabelle
  imports Main "HOL-Library.Sublist" "HOL-Library.Log_Nat"
begin

section \<open>Python string primitives used by the converters\<close>

text \<open>
  Strings are ASCII byte strings. \<open>startswith\<close>, \<open>in\<close> (substring test),
  \<open>str.lower\<close>, \<open>str.replace(pat, '')\<close>, \<open>'\n'.join\<close>, \<open>str(int)\<close> and \<open>int(str)\<close>
  are the only string operations of \<open>convert_redd_h5_to_dat.py\<close> and
  \<open>convert_redd_h5_to_dat_pytables.py\<close>.
\<close>

definition newline :: char where
  "newline = CHR 0x0A"

definition startswith :: "string \<Rightarrow> string \<Rightarrow> bool" where
  "startswith s p = prefix p s"

fun contains :: "string \<Rightarrow> string \<Rightarrow> bool" where
  "contains pat [] = (pat = [])"
| "contains pat (c # cs) = (prefix pat (c # cs) \<or> contains pat cs)"

definition lower_char :: "char \<Rightarrow> char" where
  "lower_char c =
     (case map_of (zip ''ABCDEFGHIJKLMNOPQRSTUVWXYZ'' ''abcdefghijklmnopqrstuvwxyz'') c of
        Some l \<Rightarrow> l
      | None \<Rightarrow> c)"

definition lower :: "string \<Rightarrow> string" where
  "lower s = map lower_char s"

text \<open>
  \<open>s.replace(pat, '')\<close>: every non-overlapping occurrence of \<open>pat\<close>, found from the
  left, is removed. Both call sites pass a non-empty pattern.
\<close>

function replace_empty :: "string \<Rightarrow> string \<Rightarrow> string" where
  "replace_empty pat [] = []"
| "replace_empty pat (c # cs) =
     (if pat \<noteq> [] \<and> prefix pat (c # cs)
      then replace_empty pat (drop (length pat) (c # cs))
      else c # replace_empty pat cs)"
  by pat_completeness auto
termination
  by (relation "measure (\<lambda>(pat, s). length s)") (auto simp: neq_Nil_conv)

fun join :: "string \<Rightarrow> string list \<Rightarrow> string" where
  "join sep [] = []"
| "join sep [x] = x"
| "join sep (x # y # ys) = x @ sep @ join sep (y # ys)"

subsection \<open>Decimal rendering and parsing of integers\<close>

definition digit_char :: "nat \<Rightarrow> char" where
  "digit_char d = ''0123456789'' ! d"

function str_nat :: "nat \<Rightarrow> string" where
  "str_nat n = (if n < 10 then [digit_char n] else str_nat (n div 10) @ [digit_char (n mod 10)])"
  by pat_completeness auto
termination
  by (relation "measure id") auto

declare str_nat.simps [simp del]

definition str_int :: "int \<Rightarrow> string" where
  "str_int i = (if i < 0 then CHR ''-'' # str_nat (nat (- i)) else str_nat (nat i))"

definition is_digit :: "char \<Rightarrow> bool" where
  "is_digit c = (c \<in> set ''0123456789'')"

definition digit_val :: "char \<Rightarrow> nat" where
  "digit_val c = length (takeWhile (\<lambda>d. d \<noteq> c) ''0123456789'')"

text \<open>The ASCII characters \<open>int()\<close> and \<open>str.strip\<close> treat as white space.\<close>

definition is_space :: "char \<Rightarrow> bool" where
  "is_space c =
     (c \<in> set [CHR 0x09, CHR 0x0A, CHR 0x0B, CHR 0x0C, CHR 0x0D,
                CHR 0x1C, CHR 0x1D, CHR 0x1E, CHR 0x1F, CHR 0x20])"

definition strip :: "string \<Rightarrow> string" where
  "strip s = rev (dropWhile is_space (rev (dropWhile is_space s)))"

text \<open>
  The digit part of an integer literal as \<open>int()\<close> accepts it: decimal digits, with
  single underscores allowed between two digits. \<open>prev\<close> tells whether the previous
  character was a digit.
\<close>

fun parse_digits :: "nat \<Rightarrow> bool \<Rightarrow> string \<Rightarrow> nat option" where
  "parse_digits acc prev [] = (if prev then Some acc else None)"
| "parse_digits acc prev (c # cs) =
     (if is_digit c then parse_digits (10 * acc + digit_val c) True cs
      else if c = CHR ''_'' \<and> prev then parse_digits acc False cs
      else None)"

text \<open>\<open>int(s)\<close>: \<open>None\<close> stands for the \<open>ValueError\<close> Python raises.\<close>

definition py_int :: "string \<Rightarrow> int option" where
  "py_int s =
     (case strip s of
        [] \<Rightarrow> None
      | c # cs \<Rightarrow>
          if c = CHR ''-'' then map_option (\<lambda>n. - int n) (parse_digits 0 False cs)
          else if c = CHR ''+'' then map_option int (parse_digits 0 False cs)
          else map_option int (parse_digits 0 False (c # cs)))"

section \<open>Double-precision arithmetic of the timestamp conversion\<close>

text \<open>
  \<open>timestamps / 1e9\<close> divides an \<open>int64\<close> array by a Python float: each element is
  converted to binary64 (round to nearest, ties to even) and divided by \<open>1e9\<close> with one
  more rounding; \<open>.astype(int)\<close> then drops the fraction (towards zero).
  A finite double is modelled by an integer mantissa and a binary exponent,
  \<open>F64 m e\<close> standing for \<open>m * 2 ^ e\<close>. For \<open>int64\<close> arguments every intermediate
  value is zero or lies in the normal range of binary64, so subnormals, overflow and
  NaN do not occur and are not modelled.
\<close>

datatype f64 = F64 int int

definition scaled_num :: "int \<Rightarrow> int \<Rightarrow> int" where
  "scaled_num n e = n * 2 ^ nat (- e)"

definition scaled_den :: "int \<Rightarrow> int \<Rightarrow> int" where
  "scaled_den d e = d * 2 ^ nat e"

text \<open>\<open>n / d\<close> rounded to the nearest integer, ties to the even one (\<open>0 \<le> n\<close>, \<open>0 < d\<close>).\<close>

definition rne_div :: "int \<Rightarrow> int \<Rightarrow> int" where
  "rne_div n d =
     (let q = n div d; r = n mod d
      in if 2 * r < d then q else if d < 2 * r then q + 1 else if even q then q else q + 1)"

text \<open>
  The exponent \<open>e\<close> with \<open>2 ^ 52 \<le> (n / d) / 2 ^ e < 2 ^ 53\<close>, for positive \<open>n\<close> and
  \<open>d\<close>: the weight of the last place of the 53-bit significand.
\<close>

definition f64_exponent :: "int \<Rightarrow> int \<Rightarrow> int" where
  "f64_exponent n d =
     (let e = bitlen n - bitlen d - 53
      in if scaled_num n e < 2 ^ 53 * scaled_den d e then e else e + 1)"

text \<open>
  The double nearest to \<open>n / d\<close> for \<open>0 \<le> n\<close> and \<open>0 < d\<close>, negated when \<open>neg\<close>.
\<close>

definition f64_round :: "bool \<Rightarrow> int \<Rightarrow> int \<Rightarrow> f64" where
  "f64_round neg n d =
     (if n = 0 then F64 0 0
      else let e = f64_exponent n d; m = rne_div (scaled_num n e) (scaled_den d e)
           in F64 (if neg then - m else m) e)"

definition f64_of_int :: "int \<Rightarrow> f64" where
  "f64_of_int i = f64_round (i < 0) \<bar>i\<bar> 1"

fun f64_div :: "f64 \<Rightarrow> f64 \<Rightarrow> f64" where
  "f64_div (F64 m1 e1) (F64 m2 e2) =
     f64_round ((m1 < 0) \<noteq> (m2 < 0))
       (\<bar>m1\<bar> * 2 ^ nat (e1 - e2)) (\<bar>m2\<bar> * 2 ^ nat (e2 - e1))"

fun f64_less :: "f64 \<Rightarrow> f64 \<Rightarrow> bool" where
  "f64_less (F64 m1 e1) (F64 m2 e2) = (m1 * 2 ^ nat (e1 - e2) < m2 * 2 ^ nat (e2 - e1))"

text \<open>\<open>.astype(int)\<close> on a double: the integer part, rounding towards zero.\<close>

fun f64_trunc :: "f64 \<Rightarrow> int" where
  "f64_trunc (F64 m e) =
     (if 0 \<le> e then m * 2 ^ nat e
      else if 0 \<le> m then m div 2 ^ nat (- e)
      else - ((- m) div 2 ^ nat (- e)))"

definition f64_1e9 :: f64 where
  "f64_1e9 = F64 1000000000 0"

definition f64_1e12 :: f64 where
  "f64_1e12 = F64 1000000000000 0"

text \<open>\<open>(timestamps / 1e9).astype(int)\<close>, for one element.\<close>

definition ns_to_seconds :: "int \<Rightarrow> int" where
  "ns_to_seconds t = f64_trunc (f64_div (f64_of_int t) f64_1e9)"

text \<open>The exact quotient \<open>t / 10 ^ 9\<close> with its fraction dropped (towards zero).\<close>

definition exact_trunc_seconds :: "int \<Rightarrow> int" where
  "exact_trunc_seconds t =
     (if 0 \<le> t then t div 1000000000 else - ((- t) div 1000000000))"

section \<open>Data shared by the two converters\<close>

text \<open>Python exception classes raised on the paths the converters guard.\<close>

datatype error = ValueError | KeyError | IndexError | TypeError

text \<open>
  One constructor per \<open>print\<close> call of the conversion functions; the text of an
  exception is kept as its class.
\<close>

datatype diag =
    Processing string
  | NoElecGroup string
  | NoTableFound string
  | EmptyTable string
  | NoPowerValues string
  | CouldNotRead error
  | CreatedChannel int string nat
  | CouldNotProcess string error
  | CreatedLabels nat
  | ConversionComplete nat
  | AvailableKeys "string list"
  | FoundData int nat
  | CreatedChannelFor int string
  | NoDataFound int

text \<open>
  The effects of a run, in program order. Directories are named relative to the output
  root; \<open>WriteChannel dir m content\<close> is the \<open>to_csv\<close> call on
  \<open>dir/channel_<m>.dat\<close> and \<open>WriteLabels dir content\<close> the write of \<open>dir/labels.dat\<close>.
\<close>

datatype event =
    MkdirRoot
  | Mkdir string
  | WriteChannel string int string
  | WriteLabels string string
  | Print diag

text \<open>
  A column of a table: one number per row, or one vector of sub-fields per row
  (a two-dimensional block). Columns of higher rank are not modelled.
\<close>

datatype 'v column = Col1 "'v list" | Col2 "'v list list"

text \<open>\<open>power_values[:, 0]\<close> when \<open>len(power_values.shape) > 1\<close>, else the column itself.\<close>

definition first_column :: "'v column \<Rightarrow> error + 'v list" where
  "first_column c =
     (case c of
        Col1 xs \<Rightarrow> Inr xs
      | Col2 rows \<Rightarrow> if list_ex (\<lambda>r. r = []) rows then Inl IndexError else Inr (map hd rows))"

definition standard_redd_mapping :: "(int \<times> string) list" where
  "standard_redd_mapping =
     [(1, ''mains''), (2, ''mains''), (3, ''oven''), (4, ''oven''), (5, ''refrigerator''),
      (6, ''dishwasher''), (7, ''kitchen_outlets''), (8, ''kitchen_outlets''),
      (9, ''lighting''), (10, ''washer_dryer''), (11, ''microwave''), (12, ''bathroom_gfi''),
      (13, ''electric_heat''), (14, ''stove''), (15, ''kitchen_outlets''),
      (16, ''kitchen_outlets''), (17, ''lighting''), (18, ''lighting''),
      (19, ''washer_dryer''), (20, ''washer_dryer'')]"

text \<open>\<open>standard_redd_mapping.get(meter_num, f'unknown_{meter_num}')\<close>\<close>

definition appliance_name :: "int \<Rightarrow> string" where
  "appliance_name meter_num =
     (case map_of standard_redd_mapping meter_num of
        Some name \<Rightarrow> name
      | None \<Rightarrow> ''unknown_'' @ str_int meter_num)"

definition label_line :: "int \<Rightarrow> string" where
  "label_line meter_num = str_int meter_num @ '' '' @ appliance_name meter_num"

text \<open>
  \<open>df.to_csv(channel_file, sep=' ', header=False, index=False)\<close> on the two-column frame
  \<open>{'timestamp', 'power'}\<close>: one record per row, each ended by the line terminator.
  \<open>fmt\<close> is the writer's rendering of a float (the shortest decimal that reads back
  as the same double); it is a parameter of the model.
\<close>

definition csv_row :: "('v \<Rightarrow> string) \<Rightarrow> int \<Rightarrow> 'v \<Rightarrow> string" where
  "csv_row fmt t v = str_int t @ '' '' @ fmt v @ [newline]"

definition to_csv :: "('v \<Rightarrow> string) \<Rightarrow> int list \<Rightarrow> 'v list \<Rightarrow> string" where
  "to_csv fmt ts vs = concat (map (\<lambda>(t, v). csv_row fmt t v) (zip ts vs))"

definition house_dir :: "string \<Rightarrow> string" where
  "house_dir house_num = ''house_'' @ house_num"

text \<open>The meter numbers of the channel files an event sequence writes, in order.\<close>

fun channel_ids :: "event list \<Rightarrow> int list" where
  "channel_ids [] = []"
| "channel_ids (WriteChannel d m c # es) = m # channel_ids es"
| "channel_ids (e # es) = channel_ids es"

text \<open>The contents an event sequence writes to \<open>labels.dat\<close> files, in order.\<close>

fun labels_written :: "event list \<Rightarrow> string list" where
  "labels_written [] = []"
| "labels_written (WriteLabels d c # es) = c # labels_written es"
| "labels_written (e # es) = labels_written es"

fun dirs_created :: "event list \<Rightarrow> string list" where
  "dirs_created [] = []"
| "dirs_created (Mkdir d # es) = d # dirs_created es"
| "dirs_created (e # es) = dirs_created es"

section \<open>Primary converter: \<open>convert_h5_to_dat_format\<close>\<close>

text \<open>
  The structured array \<open>table[:]\<close> of a meter: its number of rows, the field \<open>index\<close>
  (int64 timestamps) when the dtype has one, and its other fields in dtype order.
  No field but \<open>index\<close> is used as timestamps and \<open>index\<close> is never a candidate for
  the power values, so the two kinds are kept apart by type.
\<close>

record 'v table =
  nrows :: nat
  index_field :: "int list option"
  value_fields :: "(string \<times> 'v column) list"

text \<open>
  The child \<open>table\<close> of a meter group: a dataset that can be sliced, or a node on
  which \<open>table[:10]\<close> raises.
\<close>

datatype 'v node = Table "'v table" | Unreadable error

type_synonym 'v meter_group = "(string \<times> 'v node) list"
type_synonym 'v elec_group = "(string \<times> 'v meter_group) list"
type_synonym 'v building_group = "(string \<times> 'v elec_group) list"
type_synonym 'v h5file = "(string \<times> 'v building_group) list"

text \<open>\<open>[name for name in data.dtype.names if 'value' in name.lower()]\<close>\<close>

definition value_cols :: "'v table \<Rightarrow> string list" where
  "value_cols data = filter (\<lambda>name. contains ''value'' (lower name)) (map fst (value_fields data))"

text \<open>Lines 148 to 161: the power values, or the diagnostic with which the meter is left.\<close>

definition power_values :: "string \<Rightarrow> 'v table \<Rightarrow> diag + 'v list" where
  "power_values meter_key data =
     (case map_of (value_fields data) ''values_block_0'' of
        Some c \<Rightarrow>
          (case first_column c of Inl e \<Rightarrow> Inl (CouldNotRead e) | Inr pv \<Rightarrow> Inr pv)
      | None \<Rightarrow>
          (case value_cols data of
             [] \<Rightarrow> Inl (NoPowerValues meter_key)
           | name # _ \<Rightarrow>
               (case map_of (value_fields data) name of
                  None \<Rightarrow> Inl (CouldNotRead ValueError)
                | Some c \<Rightarrow>
                    (case first_column c of
                       Inl e \<Rightarrow> Inl (CouldNotRead e)
                     | Inr pv \<Rightarrow> Inr pv))))"

text \<open>
  Lines 134 to 168, the inner \<open>try\<close>: the seconds and the power values of a meter's
  table, or the diagnostic printed before \<open>continue\<close>.
\<close>

definition read_table :: "string \<Rightarrow> 'v node \<Rightarrow> diag + (int list \<times> 'v list)" where
  "read_table meter_key tbl =
     (case tbl of
        Unreadable e \<Rightarrow> Inl (CouldNotRead e)
      | Table data \<Rightarrow>
          if nrows data = 0 then Inl (EmptyTable meter_key)
          else
            (case index_field data of
               None \<Rightarrow> Inl (CouldNotRead ValueError)
             | Some timestamps \<Rightarrow>
                 (case power_values meter_key data of
                    Inl d \<Rightarrow> Inl d
                  | Inr pv \<Rightarrow> Inr (map ns_to_seconds timestamps, pv))))"

text \<open>
  Lines 120 to 192, the body of the meter loop after the two name filters: the events
  of one meter and the line it appends to \<open>labels_data\<close>, if any. An exception raised
  outside the inner \<open>try\<close> (\<open>int()\<close> on the name, or the \<open>DataFrame\<close> constructor on
  columns of different lengths) is caught by the outer handler.
\<close>

definition process_meter ::
  "('v \<Rightarrow> string) \<Rightarrow> string \<Rightarrow> string \<Rightarrow> 'v meter_group \<Rightarrow> event list \<times> string option" where
  "process_meter fmt dir meter_key meter_data =
     (case py_int (replace_empty ''meter'' meter_key) of
        None \<Rightarrow> ([Print (CouldNotProcess meter_key ValueError)], None)
      | Some meter_num \<Rightarrow>
          (case map_of meter_data ''table'' of
             None \<Rightarrow> ([Print (NoTableFound meter_key)], None)
           | Some tbl \<Rightarrow>
               (case read_table meter_key tbl of
                  Inl d \<Rightarrow> ([Print d], None)
                | Inr (ts, pv) \<Rightarrow>
                    if length ts \<noteq> length pv
                    then ([Print (CouldNotProcess meter_key ValueError)], None)
                    else ([WriteChannel dir meter_num (to_csv fmt ts pv),
                           Print (CreatedChannel meter_num (appliance_name meter_num) (length pv))],
                          Some (label_line meter_num)))))"

text \<open>The meter loop of one building: its events and \<open>labels_data\<close>.\<close>

fun process_meters ::
  "('v \<Rightarrow> string) \<Rightarrow> string \<Rightarrow> 'v elec_group \<Rightarrow> event list \<times> string list" where
  "process_meters fmt dir [] = ([], [])"
| "process_meters fmt dir ((meter_key, meter_data) # rest) =
     (if meter_key = ''cache'' then process_meters fmt dir rest
      else if \<not> startswith meter_key ''meter'' then process_meters fmt dir rest
      else
        (case process_meter fmt dir meter_key meter_data of
           (evs, lab) \<Rightarrow>
             (case process_meters fmt dir rest of
                (evs', labs) \<Rightarrow> (evs @ evs', (case lab of None \<Rightarrow> [] | Some l \<Rightarrow> [l]) @ labs))))"

text \<open>
  Lines 99 to 200: one building, from the creation of its directory to the write of
  \<open>labels.dat\<close>. The second component tells whether \<open>labels.dat\<close> was written, which
  is when \<open>processed_houses\<close> is incremented and when \<open>with open(labels_file, 'w') as f\<close>
  rebinds the variable \<open>f\<close>.
\<close>

definition process_building ::
  "('v \<Rightarrow> string) \<Rightarrow> string \<Rightarrow> 'v building_group \<Rightarrow> event list \<times> bool" where
  "process_building fmt house_key house_data =
     (let dir = house_dir (replace_empty ''building'' house_key)
      in case map_of house_data ''elec'' of
           None \<Rightarrow> ([Mkdir dir, Print (NoElecGroup house_key)], False)
         | Some elec_group \<Rightarrow>
             (case process_meters fmt dir elec_group of
                (evs, labels_data) \<Rightarrow>
                  if labels_data \<noteq> []
                  then ([Mkdir dir] @ evs @
                        [WriteLabels dir (join [newline] labels_data),
                         Print (CreatedLabels (length labels_data))], True)
                  else ([Mkdir dir] @ evs, False)))"

text \<open>
  The state of the building loop. \<open>f_is_h5file\<close> tells whether the local variable \<open>f\<close>
  still names the container opened on line 85: line 197 binds the same name to the
  handle of \<open>labels.dat\<close>, and line 96 reads \<open>f[house_key]\<close> at the next building.
\<close>

record run_state =
  events :: "event list"
  processed_houses :: nat
  f_is_h5file :: bool

datatype outcome = Returned | Raised error

text \<open>
  Lines 91 to 200. The keys were taken from the container before the loop, so the
  iteration itself goes on after \<open>f\<close> is rebound; subscripting the closed text file
  raises \<open>TypeError\<close> outside every \<open>try\<close> of the function.
\<close>

fun building_loop ::
  "('v \<Rightarrow> string) \<Rightarrow> 'v h5file \<Rightarrow> run_state \<Rightarrow> outcome \<times> run_state" where
  "building_loop fmt [] st = (Returned, st)"
| "building_loop fmt ((house_key, house_data) # rest) st =
     (if \<not> startswith house_key ''building'' then building_loop fmt rest st
      else if \<not> f_is_h5file st
      then (Raised TypeError, st\<lparr>events := events st @ [Print (Processing house_key)]\<rparr>)
      else
        (case process_building fmt house_key house_data of
           (evs, wrote) \<Rightarrow>
             building_loop fmt rest
               \<lparr>events = events st @ [Print (Processing house_key)] @ evs,
                processed_houses = processed_houses st + (if wrote then 1 else 0),
                f_is_h5file = \<not> wrote\<rparr>))"

definition convert_h5_to_dat_format :: "('v \<Rightarrow> string) \<Rightarrow> 'v h5file \<Rightarrow> outcome \<times> run_state" where
  "convert_h5_to_dat_format fmt h5 =
     (case building_loop fmt h5 \<lparr>events = [MkdirRoot], processed_houses = 0, f_is_h5file = True\<rparr> of
        (Returned, st) \<Rightarrow>
          (Returned, st\<lparr>events := events st @ [Print (ConversionComplete (processed_houses st))]\<rparr>)
      | (Raised e, st) \<Rightarrow> (Raised e, st))"

section \<open>Fallback converter: \<open>convert_h5_to_dat_pytables\<close>\<close>

text \<open>
  A \<open>DataFrame\<close> read from the store: its row index, the column named \<open>index\<close> when
  there is one, and its other columns in order. As in the primary converter the
  timestamps and the power values never come from the same column. A two-dimensional
  block is what \<open>data[col].values\<close> yields when several columns share the name.
\<close>

record 'v frame =
  row_index :: "int list"
  index_column :: "int list option"
  columns :: "(string \<times> 'v column) list"

text \<open>What \<open>store[meter_key]\<close> does for a key the store contains.\<close>

datatype 'v stored = Frame "'v frame" | ReadError error

type_synonym 'v hdfstore = "(string \<times> 'v stored) list"

text \<open>\<open>f'/building{building_num}/elec/meter{meter_num}/table'\<close>\<close>

definition meter_table_key :: "int \<Rightarrow> int \<Rightarrow> string" where
  "meter_table_key building_num meter_num =
     ''/building'' @ str_int building_num @ ''/elec/meter'' @ str_int meter_num @ ''/table''"

text \<open>Lines 81 to 84.\<close>

definition fb_timestamps :: "'v frame \<Rightarrow> int list" where
  "fb_timestamps data =
     (case index_column data of Some c \<Rightarrow> c | None \<Rightarrow> row_index data)"

text \<open>Lines 87 to 99: the name of the power column, \<open>None\<close> when the meter is left.\<close>

definition fb_power_col :: "'v frame \<Rightarrow> string option" where
  "fb_power_col data =
     (case find (\<lambda>col. contains ''values_block'' col \<or> contains ''power'' (lower col))
             (map fst (columns data)) of
        Some col \<Rightarrow> Some col
      | None \<Rightarrow>
          (case filter (\<lambda>col. col \<noteq> ''index'') (map fst (columns data)) of
             [] \<Rightarrow> None
           | col # _ \<Rightarrow> Some col))"

text \<open>
  Lines 108 to 111. \<open>timestamps.max() > 1e12\<close> compares the largest element, converted
  to a double, with the double \<open>1e12\<close>; \<open>max\<close> of an empty array raises.
\<close>

definition rescale_timestamps :: "int list \<Rightarrow> error + int list" where
  "rescale_timestamps timestamps =
     (case timestamps of
        [] \<Rightarrow> Inl ValueError
      | t # ts \<Rightarrow>
          if f64_less f64_1e12 (f64_of_int (fold max ts t))
          then Inr (map ns_to_seconds timestamps)
          else Inr timestamps)"

text \<open>Why a (building, meter) pair yields no channel file.\<close>

datatype fb_skip = KeyAbsent | EmptyFrame | NoPowerColumn | Exception error

text \<open>Lines 71 to 76: the key test, the read and the length test.\<close>

definition fb_read_meter :: "'v hdfstore \<Rightarrow> string \<Rightarrow> fb_skip + 'v frame" where
  "fb_read_meter store meter_key =
     (case map_of store meter_key of
        None \<Rightarrow> Inl KeyAbsent
      | Some (ReadError e) \<Rightarrow> Inl (Exception e)
      | Some (Frame data) \<Rightarrow> if length (row_index data) = 0 then Inl EmptyFrame else Inr data)"

text \<open>Lines 81 to 120: the columns of the output frame.\<close>

definition fb_extract :: "'v frame \<Rightarrow> fb_skip + (int list \<times> 'v list)" where
  "fb_extract data =
     (case fb_power_col data of
        None \<Rightarrow> Inl NoPowerColumn
      | Some power_col \<Rightarrow>
          (case map_of (columns data) power_col of
             None \<Rightarrow> Inl (Exception KeyError)
           | Some c \<Rightarrow>
               (case first_column c of
                  Inl e \<Rightarrow> Inl (Exception e)
                | Inr pv \<Rightarrow>
                    (case rescale_timestamps (fb_timestamps data) of
                       Inl e \<Rightarrow> Inl (Exception e)
                     | Inr ts \<Rightarrow>
                         if length ts \<noteq> length pv then Inl (Exception ValueError)
                         else Inr (ts, pv)))))"

text \<open>
  Lines 68 to 136, the body of the meter loop: every exception is caught by
  \<open>except Exception: continue\<close>, which prints nothing.
\<close>

definition fb_process_meter ::
  "('v \<Rightarrow> string) \<Rightarrow> 'v hdfstore \<Rightarrow> int \<Rightarrow> int \<Rightarrow> event list \<times> string option" where
  "fb_process_meter fmt store building_num meter_num =
     (case fb_read_meter store (meter_table_key building_num meter_num) of
        Inl _ \<Rightarrow> ([], None)
      | Inr data \<Rightarrow>
          (case fb_extract data of
             Inl _ \<Rightarrow> ([Print (FoundData meter_num (length (row_index data)))], None)
           | Inr (ts, pv) \<Rightarrow>
               ([Print (FoundData meter_num (length (row_index data))),
                 WriteChannel (house_dir (str_int building_num)) meter_num (to_csv fmt ts pv),
                 Print (CreatedChannelFor meter_num (appliance_name meter_num))],
                Some (label_line meter_num))))"

text \<open>\<open>for meter_num in range(1, 30)\<close>, over the meter numbers still to visit.\<close>

fun fb_process_meters ::
  "('v \<Rightarrow> string) \<Rightarrow> 'v hdfstore \<Rightarrow> int \<Rightarrow> int list \<Rightarrow> event list \<times> string list" where
  "fb_process_meters fmt store building_num [] = ([], [])"
| "fb_process_meters fmt store building_num (meter_num # rest) =
     (case fb_process_meter fmt store building_num meter_num of
        (evs, lab) \<Rightarrow>
          (case fb_process_meters fmt store building_num rest of
             (evs', labs) \<Rightarrow> (evs @ evs', (case lab of None \<Rightarrow> [] | Some l \<Rightarrow> [l]) @ labs)))"

text \<open>Lines 56 to 146: one pass of the building loop.\<close>

definition fb_process_building ::
  "('v \<Rightarrow> string) \<Rightarrow> 'v hdfstore \<Rightarrow> int \<Rightarrow> event list \<times> bool" where
  "fb_process_building fmt store building_num =
     (let dir = house_dir (str_int building_num)
      in case fb_process_meters fmt store building_num [1..29] of
           (evs, labels_data) \<Rightarrow>
             if labels_data \<noteq> []
             then ([Print (Processing (''building'' @ str_int building_num)), Mkdir dir] @ evs @
                   [WriteLabels dir (join [newline] labels_data),
                    Print (CreatedLabels (length labels_data))], True)
             else ([Print (Processing (''building'' @ str_int building_num)), Mkdir dir] @ evs @
                   [Print (NoDataFound building_num)], False))"

text \<open>\<open>for building_num in range(1, 7)\<close>, over the building numbers still to visit.\<close>

fun fb_building_loop ::
  "('v \<Rightarrow> string) \<Rightarrow> 'v hdfstore \<Rightarrow> int list \<Rightarrow> event list \<times> nat" where
  "fb_building_loop fmt store [] = ([], 0)"
| "fb_building_loop fmt store (building_num # rest) =
     (case fb_process_building fmt store building_num of
        (evs, wrote) \<Rightarrow>
          (case fb_building_loop fmt store rest of
             (evs', n) \<Rightarrow> (evs @ evs', (if wrote then 1 else 0) + n)))"

text \<open>
  The function on an opened store: its events, the final \<open>processed_houses\<close> and the
  returned \<open>processed_houses > 0\<close>.
\<close>

definition convert_h5_to_dat_pytables ::
  "('v \<Rightarrow> string) \<Rightarrow> 'v hdfstore \<Rightarrow> event list \<times> nat \<times> bool" where
  "convert_h5_to_dat_pytables fmt store =
     (case fb_building_loop fmt store [1..6] of
        (evs, processed) \<Rightarrow>
          ([MkdirRoot, Print (AvailableKeys (map fst store))] @ evs @
           [Print (ConversionComplete processed)], processed, 0 < processed))"

section \<open>A concrete type of power readings\<close>

text \<open>
  \<open>Decimal m k\<close> stands for the double nearest to \<open>m / 10 ^ k\<close>. \<open>repr_decimal\<close>
  writes it in positional notation with at least one fractional digit, which is how a
  float is rendered when this decimal is its shortest representation and its magnitude
  is moderate (\<open>12.5\<close>, \<open>0.0\<close>).
\<close>

datatype decimal = Decimal int nat

definition repr_decimal :: "decimal \<Rightarrow> string" where
  "repr_decimal x =
     (case x of
        Decimal m k \<Rightarrow>
          (let a = nat \<bar>m\<bar>; frac = str_nat (a mod 10 ^ k)
           in (if m < 0 then ''-'' else []) @ str_nat (a div 10 ^ k) @ ''.'' @
              (if k = 0 then ''0'' else replicate (k - length frac) CHR ''0'' @ frac)))"

text \<open>
  The container of the end-to-end scenario: one building \<open>building3\<close> with one meter
  \<open>meter5\<close> whose table has the rows \<open>(1_000_000_000_000, 12.5)\<close> and
  \<open>(2_000_000_000_000, 0.0)\<close>.
\<close>

definition scenario_table :: "decimal table" where
  "scenario_table =
     \<lparr>nrows = 2,
      index_field = Some [1000000000000, 2000000000000],
      value_fields = [(''values_block_0'', Col1 [Decimal 125 1, Decimal 0 1])]\<rparr>"

definition scenario_building :: "decimal building_group" where
  "scenario_building = [(''elec'', [(''meter5'', [(''table'', Table scenario_table)])])]"

definition scenario_h5 :: "decimal h5file" where
  "scenario_h5 = [(''building3'', scenario_building)]"

text \<open>The same readings as a store of the fallback converter, the frame having no column \<open>index\<close>.\<close>

definition scenario_frame :: "decimal frame" where
  "scenario_frame =
     \<lparr>row_index = [1000000000000, 2000000000000],
      index_column = None,
      columns = [(''power'', Col1 [Decimal 125 1, Decimal 0 1])]\<rparr>"

definition scenario_store :: "decimal hdfstore" where
  "scenario_store = [(''/building3/elec/meter5/table'', Frame scenario_frame)]"

text \<open>
  Two variants of the scenario table without a field \<open>values_block_0\<close>: one whose
  power readings are the first sub-field of a two-dimensional field found by the
  substring search, and one with no field whose name contains \<open>value\<close>.
\<close>

definition searched_table :: "decimal table" where
  "searched_table =
     \<lparr>nrows = 2,
      index_field = Some [1000000000000, 2000000000000],
      value_fields =
        [(''count'', Col1 [Decimal 1 0, Decimal 2 0]),
         (''Power_VALUES'', Col2 [[Decimal 125 1, Decimal 7 0], [Decimal 0 1, Decimal 8 0]])]\<rparr>"

definition unlabelled_table :: "decimal table" where
  "unlabelled_table =
     \<lparr>nrows = 2,
      index_field = Some [1000000000000, 2000000000000],
      value_fields = [(''count'', Col1 [Decimal 1 0, Decimal 2 0])]\<rparr>"

text \<open>
  What the body of the fallback meter loop comes to for one (building, meter) pair:
  the columns of its channel file, or the reason why there is none.
\<close>

definition fb_outcome :: "'v hdfstore \<Rightarrow> int \<Rightarrow> int \<Rightarrow> fb_skip + (int list \<times> 'v list)" where
  "fb_outcome store building_num meter_num =
     (case fb_read_meter store (meter_table_key building_num meter_num) of
        Inl s \<Rightarrow> Inl s
      | Inr data \<Rightarrow> fb_extract data)"

text \<open>
  A store with the scenario meter, a meter whose read raises and a meter whose power
  column is a block without sub-fields (\<open>power_values[:, 0]\<close> raises).
\<close>

definition faulty_store :: "decimal hdfstore" where
  "faulty_store =
     [(''/building3/elec/meter4/table'', ReadError TypeError),
      (''/building3/elec/meter5/table'', Frame scenario_frame),
      (''/building3/elec/meter6/table'',
         Frame \<lparr>row_index = [1], index_column = None, columns = [(''power'', Col2 [[]])]\<rparr>)]"

text \<open>
  A container with two buildings: \<open>building1\<close> holds the scenario meter, \<open>building2\<close>
  has no \<open>elec\<close> group.
\<close>

definition two_building_h5 :: "decimal h5file" where
  "two_building_h5 = [(''building1'', scenario_building), (''building2'', [])]"

section \<open>The output tree left by a run\<close>

definition channel_file :: "int \<Rightarrow> string" where
  "channel_file meter_num = ''channel_'' @ str_int meter_num @ ''.dat''"

text \<open>
  The content of the file \<open>name\<close> in directory \<open>dir\<close> of an output root that was empty
  before the events: the last write to that path.
\<close>

fun written_to :: "event \<Rightarrow> string \<Rightarrow> string \<Rightarrow> string option" where
  "written_to (WriteChannel d m c) dir name =
     (if d = dir \<and> channel_file m = name then Some c else None)"
| "written_to (WriteLabels d c) dir name =
     (if d = dir \<and> name = ''labels.dat'' then Some c else None)"
| "written_to e dir name = None"

fun file_content :: "event list \<Rightarrow> string \<Rightarrow> string \<Rightarrow> string option" where
  "file_content [] dir name = None"
| "file_content (e # es) dir name =
     (case file_content es dir name of
        Some c \<Rightarrow> Some c
      | None \<Rightarrow> written_to e dir name)"

text \<open>The directories in which an event sequence writes files, in order.\<close>

fun write_dirs :: "event list \<Rightarrow> string list" where
  "write_dirs [] = []"
| "write_dirs (WriteChannel d m c # es) = d # write_dirs es"
| "write_dirs (WriteLabels d c # es) = d # write_dirs es"
| "write_dirs (e # es) = write_dirs es"

section \<open>Reading a label file back\<close>

text \<open>
  \<open>content.split('\n')\<close> and the integer in front of the first blank of a line: how
  the lines of \<open>labels.dat\<close> and the meter number of each line are observed.
\<close>

fun split_on :: "char \<Rightarrow> string \<Rightarrow> string list" where
  "split_on sep [] = [[]]"
| "split_on sep (c # cs) =
     (if c = sep then [] # split_on sep cs
      else (case split_on sep cs of [] \<Rightarrow> [[c]] | l # ls \<Rightarrow> (c # l) # ls))"

definition label_id :: "string \<Rightarrow> int option" where
  "label_id line = py_int (takeWhile (\<lambda>c. c \<noteq> CHR '' '') line)"

section \<open>What one building and one run write\<close>

lemma channel_ids_append: "channel_ids (xs @ ys) = channel_ids xs @ channel_ids ys"
  by (induction xs rule: channel_ids.induct) simp_all

lemma labels_written_append: "labels_written (xs @ ys) = labels_written xs @ labels_written ys"
  by (induction xs rule: labels_written.induct) simp_all

lemma dirs_created_append: "dirs_created (xs @ ys) = dirs_created xs @ dirs_created ys"
  by (induction xs rule: dirs_created.induct) simp_all

lemma process_meter_effects:
  assumes "process_meter fmt dir meter_key meter_data = (evs, lab)"
  shows "map label_line (channel_ids evs) = (case lab of None \<Rightarrow> [] | Some l \<Rightarrow> [l]) \<and>
         labels_written evs = [] \<and> dirs_created evs = []"
  using assms
  by (auto simp: process_meter_def split: option.splits sum.splits prod.splits if_splits)

lemma process_meters_skip:
  "meter_key = ''cache'' \<or> \<not> startswith meter_key ''meter'' \<Longrightarrow>
   process_meters fmt dir ((meter_key, meter_data) # rest) = process_meters fmt dir rest"
  by auto

lemma process_meters_step:
  "startswith meter_key ''meter'' \<Longrightarrow>
   process_meters fmt dir ((meter_key, meter_data) # rest) =
     (fst (process_meter fmt dir meter_key meter_data) @ fst (process_meters fmt dir rest),
      (case snd (process_meter fmt dir meter_key meter_data) of None \<Rightarrow> [] | Some l \<Rightarrow> [l]) @
      snd (process_meters fmt dir rest))"
  by (auto simp: startswith_def split: prod.splits)

lemma process_meters_effects:
  "process_meters fmt dir elec_group = (evs, labels_data) \<Longrightarrow>
     map label_line (channel_ids evs) = labels_data \<and> labels_written evs = [] \<and>
     dirs_created evs = []"
proof (induction elec_group arbitrary: evs labels_data)
  case Nil
  then show ?case by simp
next
  case (Cons entry rest)
  obtain meter_key meter_data where entry: "entry = (meter_key, meter_data)"
    by (cases entry)
  show ?case
  proof (cases "meter_key = ''cache'' \<or> \<not> startswith meter_key ''meter''")
    case True
    with Cons entry show ?thesis by (simp only: process_meters_skip)
  next
    case False
    obtain e1 lab where pm: "process_meter fmt dir meter_key meter_data = (e1, lab)"
      by (cases "process_meter fmt dir meter_key meter_data")
    obtain e2 labs where rec: "process_meters fmt dir rest = (e2, labs)"
      by (cases "process_meters fmt dir rest")
    from Cons.IH[OF rec]
    have ih: "map label_line (channel_ids e2) = labs \<and> labels_written e2 = [] \<and> dirs_created e2 = []" .
    from Cons.prems entry False pm rec process_meters_step[of meter_key fmt dir meter_data rest]
    have ev: "evs = e1 @ e2" and lb: "labels_data = (case lab of None \<Rightarrow> [] | Some l \<Rightarrow> [l]) @ labs"
      by simp_all
    from process_meter_effects[OF pm] ih ev lb show ?thesis
      by (simp add: channel_ids_append labels_written_append dirs_created_append)
  qed
qed

lemma process_building_effects:
  assumes "process_building fmt house_key house_data = (evs, wrote)"
  shows "wrote = (channel_ids evs \<noteq> []) \<and>
         labels_written evs =
           (if channel_ids evs = [] then []
            else [join [newline] (map label_line (channel_ids evs))]) \<and>
         dirs_created evs = [house_dir (replace_empty ''building'' house_key)]"
proof (cases "map_of house_data ''elec''")
  case None
  with assms show ?thesis by (auto simp: process_building_def)
next
  case (Some elec_group)
  obtain e labs where pm: "process_meters fmt (house_dir (replace_empty ''building'' house_key)) elec_group = (e, labs)"
    by (cases "process_meters fmt (house_dir (replace_empty ''building'' house_key)) elec_group")
  from process_meters_effects[OF pm] assms Some pm show ?thesis
    by (auto simp: process_building_def Let_def channel_ids_append labels_written_append
        dirs_created_append split: if_splits)
qed


lemma fb_process_meter_effects:
  assumes "fb_process_meter fmt store building_num meter_num = (evs, lab)"
  shows "map label_line (channel_ids evs) = (case lab of None \<Rightarrow> [] | Some l \<Rightarrow> [l]) \<and>
         labels_written evs = [] \<and> dirs_created evs = []"
  using assms
  by (auto simp: fb_process_meter_def split: sum.splits prod.splits)

lemma fb_process_meters_effects:
  "fb_process_meters fmt store building_num ms = (evs, labels_data) \<Longrightarrow>
     map label_line (channel_ids evs) = labels_data \<and> labels_written evs = [] \<and>
     dirs_created evs = []"
proof (induction ms arbitrary: evs labels_data)
  case Nil
  then show ?case by simp
next
  case (Cons meter_num rest)
  obtain e1 lab where pm: "fb_process_meter fmt store building_num meter_num = (e1, lab)"
    by (cases "fb_process_meter fmt store building_num meter_num")
  obtain e2 labs where rec: "fb_process_meters fmt store building_num rest = (e2, labs)"
    by (cases "fb_process_meters fmt store building_num rest")
  from Cons.prems pm rec
  have ev: "evs = e1 @ e2" and lb: "labels_data = (case lab of None \<Rightarrow> [] | Some l \<Rightarrow> [l]) @ labs"
    by simp_all
  from fb_process_meter_effects[OF pm] Cons.IH[OF rec] ev lb show ?case
    by (simp add: channel_ids_append labels_written_append dirs_created_append)
qed

lemma fb_process_building_effects:
  assumes "fb_process_building fmt store building_num = (evs, wrote)"
  shows "wrote = (channel_ids evs \<noteq> []) \<and>
         labels_written evs =
           (if channel_ids evs = [] then []
            else [join [newline] (map label_line (channel_ids evs))]) \<and>
         dirs_created evs = [house_dir (str_int building_num)]"
proof -
  obtain e labs where pm: "fb_process_meters fmt store building_num [1..29] = (e, labs)"
    by (cases "fb_process_meters fmt store building_num [1..29]")
  from fb_process_meters_effects[OF pm] assms pm show ?thesis
    by (auto simp: fb_process_building_def Let_def channel_ids_append labels_written_append
        dirs_created_append split: if_splits)
qed





section \<open>The end-to-end scenario\<close>

lemma scenario_run:
  "convert_h5_to_dat_format repr_decimal scenario_h5 =
     (Returned,
      \<lparr>events =
         [MkdirRoot, Print (Processing ''building3''), Mkdir ''house_3'',
          WriteChannel ''house_3'' 5 (''1000 12.5'' @ [newline] @ ''2000 0.0'' @ [newline]),
          Print (CreatedChannel 5 ''refrigerator'' 2),
          WriteLabels ''house_3'' ''5 refrigerator'', Print (CreatedLabels 1),
          Print (ConversionComplete 1)],
       processed_houses = 1, f_is_h5file = False\<rparr>)"
  by code_simp

lemma channel_file_5: "channel_file 5 = ''channel_5.dat''"
  by code_simp

text \<open>
  C1, as amended. On the container with the single building \<open>building3\<close> and the single
  meter \<open>meter5\<close> whose table holds the rows \<open>(1_000_000_000_000, 12.5)\<close> and
  \<open>(2_000_000_000_000, 0.0)\<close>, the primary converter returns normally, leaves
  \<open>house_3/channel_5.dat\<close> with the content \<open>1000 12.5\n2000 0.0\n\<close> (every row,
  the last one too, ends with the line terminator \<open>to_csv\<close> writes) and leaves
  \<open>house_3/labels.dat\<close> with the content \<open>5 refrigerator\<close>.
\<close>

theorem scenario_output:
  "fst (convert_h5_to_dat_format repr_decimal scenario_h5) = Returned \<and>
   file_content (events (snd (convert_h5_to_dat_format repr_decimal scenario_h5)))
     ''house_3'' ''channel_5.dat'' = Some (''1000 12.5'' @ [newline] @ ''2000 0.0'' @ [newline]) \<and>
   file_content (events (snd (convert_h5_to_dat_format repr_decimal scenario_h5)))
     ''house_3'' ''labels.dat'' = Some ''5 refrigerator''"
  by (simp add: scenario_run channel_file_5)

text \<open>
  C1, as stated, fails: the channel file does not have the content
  \<open>1000 12.5\n2000 0.0\<close> without a final line terminator.
\<close>

theorem scenario_output_not_as_specified:
  "\<not> (file_content (events (snd (convert_h5_to_dat_format repr_decimal scenario_h5)))
        ''house_3'' ''channel_5.dat'' = Some (''1000 12.5'' @ [newline] @ ''2000 0.0'') \<and>
      file_content (events (snd (convert_h5_to_dat_format repr_decimal scenario_h5)))
        ''house_3'' ''labels.dat'' = Some ''5 refrigerator'')"
  by (simp add: scenario_run channel_file_5)

section \<open>Integers and label lines as text\<close>

lemma digit_cases: "n < 10 \<Longrightarrow> n \<in> set [0, 1, 2, 3, 4, 5, 6, 7, 8, 9 :: nat]"
  by simp arith

lemma digit_char_props:
  assumes "n < 10"
  shows "is_digit (digit_char n)" and "digit_val (digit_char n) = n"
    and "digit_char n \<in> set ''0123456789''"
  using digit_cases[OF assms]
  by (auto simp: digit_char_def is_digit_def digit_val_def)

lemma str_nat_digits: "set (str_nat n) \<subseteq> set ''0123456789''"
proof (induction n rule: str_nat.induct)
  case (1 n)
  show ?case
  proof (cases "n < 10")
    case True
    then show ?thesis using digit_char_props(3)[of n] by (subst str_nat.simps) simp
  next
    case False
    have "n mod 10 < 10" by simp
    from digit_char_props(3)[OF this] "1"[OF False] False show ?thesis
      by (subst str_nat.simps) simp
  qed
qed

lemma str_nat_nonempty: "str_nat n \<noteq> []"
  by (subst str_nat.simps) simp

lemma fold_digits_str_nat:
  "fold (\<lambda>c a. 10 * a + digit_val c) (str_nat n) acc = acc * 10 ^ length (str_nat n) + n"
proof (induction n arbitrary: acc rule: str_nat.induct)
  case (1 n)
  show ?case
  proof (cases "n < 10")
    case True
    then have "str_nat n = [digit_char n]" by (subst str_nat.simps) simp
    with True show ?thesis by (simp add: digit_char_props)
  next
    case False
    have d: "n mod 10 < 10" by simp
    have s: "str_nat n = str_nat (n div 10) @ [digit_char (n mod 10)]"
      using False by (subst str_nat.simps) simp
    have "fold (\<lambda>c a. 10 * a + digit_val c) (str_nat n) acc =
          10 * fold (\<lambda>c a. 10 * a + digit_val c) (str_nat (n div 10)) acc + n mod 10"
      by (simp add: s digit_char_props(2)[OF d])
    also have "\<dots> = 10 * (acc * 10 ^ length (str_nat (n div 10)) + n div 10) + n mod 10"
      by (simp only: "1"[OF False])
    also have "\<dots> = acc * 10 ^ length (str_nat n) + n"
      by (simp add: s algebra_simps)
    finally show ?thesis .
  qed
qed

lemma parse_digits_run:
  "\<forall>c \<in> set xs. is_digit c \<Longrightarrow>
   parse_digits acc prev (xs @ ys) =
     parse_digits (fold (\<lambda>c a. 10 * a + digit_val c) xs acc) (prev \<or> xs \<noteq> []) ys"
  by (induction xs arbitrary: acc prev) simp_all

lemma str_nat_all_digits: "\<forall>c \<in> set (str_nat n). is_digit c"
  unfolding is_digit_def using str_nat_digits[of n] by blast

lemma parse_digits_str_nat: "parse_digits 0 False (str_nat n) = Some n"
proof -
  have "parse_digits 0 False (str_nat n @ []) =
        parse_digits (fold (\<lambda>c a. 10 * a + digit_val c) (str_nat n) 0) (False \<or> str_nat n \<noteq> []) []"
    by (rule parse_digits_run[OF str_nat_all_digits])
  then show ?thesis
    by (simp add: fold_digits_str_nat str_nat_nonempty)
qed

lemma digit_not_space: "c \<in> set ''0123456789'' \<Longrightarrow> \<not> is_space c"
  unfolding is_space_def by auto

lemma dropWhile_hd: "xs \<noteq> [] \<Longrightarrow> \<not> P (hd xs) \<Longrightarrow> dropWhile P xs = xs"
  by (cases xs) simp_all

lemma strip_id:
  assumes "s \<noteq> []" "\<not> is_space (hd s)" "\<not> is_space (last s)"
  shows "strip s = s"
proof -
  have a: "dropWhile is_space s = s"
    using assms(1,2) by (rule dropWhile_hd[where P = is_space])
  have "rev s \<noteq> []" using assms(1) by simp
  moreover have "\<not> is_space (hd (rev s))" using assms(1,3) by (simp add: hd_rev)
  ultimately have b: "dropWhile is_space (rev s) = rev s"
    by (rule dropWhile_hd[where P = is_space])
  show ?thesis by (simp add: strip_def a b)
qed

lemma str_nat_hd_last:
  "hd (str_nat n) \<in> set ''0123456789''" "last (str_nat n) \<in> set ''0123456789''"
proof -
  have "hd (str_nat n) \<in> set (str_nat n)" "last (str_nat n) \<in> set (str_nat n)"
    using str_nat_nonempty[of n] by simp_all
  then show "hd (str_nat n) \<in> set ''0123456789''" "last (str_nat n) \<in> set ''0123456789''"
    using str_nat_digits[of n] by blast+
qed

lemma str_nat_strip: "strip (str_nat n) = str_nat n"
  by (rule strip_id) (simp_all only: str_nat_nonempty str_nat_hd_last digit_not_space not_False_eq_True)

lemma minus_str_nat_strip: "strip (CHR ''-'' # str_nat n) = CHR ''-'' # str_nat n"
proof (rule strip_id)
  show "CHR ''-'' # str_nat n \<noteq> []" by simp
  show "\<not> is_space (hd (CHR ''-'' # str_nat n))" by (simp add: is_space_def)
  have "last (CHR ''-'' # str_nat n) = last (str_nat n)"
    using str_nat_nonempty[of n] by simp
  then show "\<not> is_space (last (CHR ''-'' # str_nat n))"
    using digit_not_space[OF str_nat_hd_last(2)[of n]] by simp
qed

lemma py_int_str_nat: "py_int (str_nat n) = Some (int n)"
proof -
  obtain c cs where cs: "str_nat n = c # cs"
    using str_nat_nonempty[of n] by (cases "str_nat n") auto
  from str_nat_hd_last(1)[of n] cs have "c \<in> set ''0123456789''" by simp
  then have sign: "c \<noteq> CHR ''-''" "c \<noteq> CHR ''+''" by auto
  have "strip (str_nat n) = c # cs" using str_nat_strip[of n] cs by simp
  moreover have "parse_digits 0 False (c # cs) = Some n"
    using parse_digits_str_nat[of n] cs by simp
  ultimately show ?thesis
    using sign by (simp add: py_int_def)
qed

lemma py_int_minus_str_nat: "py_int (CHR ''-'' # str_nat n) = Some (- int n)"
  by (simp add: py_int_def minus_str_nat_strip parse_digits_str_nat)

lemma py_int_str_int: "py_int (str_int i) = Some i"
  by (simp add: str_int_def py_int_str_nat py_int_minus_str_nat)

lemma str_int_chars: "set (str_int i) \<subseteq> set ''-0123456789''"
proof (cases "i < 0")
  case True
  have "set (str_nat (nat (- i))) \<subseteq> set ''-0123456789''"
    using str_nat_digits[of "nat (- i)"] by (rule subset_trans) (simp add: subset_iff)
  with True show ?thesis by (simp add: str_int_def)
next
  case False
  have "set (str_nat (nat i)) \<subseteq> set ''-0123456789''"
    using str_nat_digits[of "nat i"] by (rule subset_trans) (simp add: subset_iff)
  with False show ?thesis by (simp add: str_int_def)
qed

lemma str_int_no_blank: "CHR '' '' \<notin> set (str_int i)"
proof
  assume "CHR '' '' \<in> set (str_int i)"
  with str_int_chars[of i] have "CHR '' '' \<in> set ''-0123456789''" by (rule subsetD)
  then show False by simp
qed

lemma str_int_no_newline: "newline \<notin> set (str_int i)"
proof
  assume "newline \<in> set (str_int i)"
  with str_int_chars[of i] have "newline \<in> set ''-0123456789''" by (rule subsetD)
  then show False by (simp add: newline_def)
qed

lemma label_id_label_line: "label_id (label_line m) = Some m"
proof -
  have "\<forall>c \<in> set (str_int m). c \<noteq> CHR '' ''"
    using str_int_no_blank[of m] by blast
  then have "takeWhile (\<lambda>c. c \<noteq> CHR '' '') (str_int m @ CHR '' '' # appliance_name m) = str_int m"
    by (simp add: takeWhile_append2)
  then show ?thesis
    by (simp add: label_id_def label_line_def py_int_str_int)
qed

lemma mapped_names_no_newline:
  "\<forall>name \<in> set (map snd standard_redd_mapping). newline \<notin> set name"
  by (simp add: standard_redd_mapping_def newline_def)

lemma appliance_name_no_newline: "newline \<notin> set (appliance_name m)"
proof (cases "map_of standard_redd_mapping m")
  case None
  then show ?thesis
    using str_int_no_newline[of m] by (simp add: appliance_name_def newline_def)
next
  case (Some name)
  then have "(m, name) \<in> set standard_redd_mapping" by (rule map_of_SomeD)
  then have "name \<in> set (map snd standard_redd_mapping)" by force
  with mapped_names_no_newline have "newline \<notin> set name" by blast
  with Some show ?thesis by (simp add: appliance_name_def)
qed

lemma label_line_no_newline: "newline \<notin> set (label_line m)"
  using str_int_no_newline[of m] appliance_name_no_newline[of m]
  by (simp add: label_line_def newline_def)

lemma split_on_no_sep: "sep \<notin> set l \<Longrightarrow> split_on sep l = [l]"
  by (induction l) auto

lemma split_on_nonempty: "split_on sep s \<noteq> []"
  by (induction s) (simp_all split: list.splits)

lemma split_on_append:
  "sep \<notin> set l \<Longrightarrow> split_on sep (l @ sep # rest) = l # split_on sep rest"
  by (induction l) auto

lemma split_on_join:
  "ls \<noteq> [] \<Longrightarrow> \<forall>l \<in> set ls. sep \<notin> set l \<Longrightarrow> split_on sep (join [sep] ls) = ls"
proof (induction ls)
  case Nil
  then show ?case by simp
next
  case (Cons x xs)
  show ?case
  proof (cases xs)
    case Nil
    with Cons.prems show ?thesis by (simp add: split_on_no_sep)
  next
    case (Cons y ys)
    with Cons.prems Cons.IH show ?thesis by (simp add: split_on_append)
  qed
qed

lemma labels_content_lines:
  "ids \<noteq> [] \<Longrightarrow> split_on newline (join [newline] (map label_line ids)) = map label_line ids"
  by (rule split_on_join) (simp_all add: label_line_no_newline)

lemma map_label_id_lines: "map label_id (map label_line ids) = map Some ids"
  by (simp add: label_id_label_line)

section \<open>Label files and the processed-building counter\<close>






lemma write_dirs_append: "write_dirs (xs @ ys) = write_dirs xs @ write_dirs ys"
  by (induction xs rule: write_dirs.induct) simp_all

lemma process_meter_dirs:
  "set (write_dirs (fst (process_meter fmt dir meter_key meter_data))) \<subseteq> {dir}"
  by (auto simp: process_meter_def split: option.splits sum.splits prod.splits if_splits)

lemma process_meters_dirs:
  "set (write_dirs (fst (process_meters fmt dir elec_group))) \<subseteq> {dir}"
proof (induction elec_group)
  case Nil
  then show ?case by simp
next
  case (Cons entry rest)
  obtain meter_key meter_data where entry: "entry = (meter_key, meter_data)"
    by (cases entry)
  show ?case
  proof (cases "meter_key = ''cache'' \<or> \<not> startswith meter_key ''meter''")
    case True
    with Cons entry show ?thesis by (simp only: process_meters_skip)
  next
    case False
    then have "startswith meter_key ''meter''" by simp
    from process_meters_step[OF this, of fmt dir meter_data rest] Cons.IH
      process_meter_dirs[of fmt dir meter_key meter_data] entry
    show ?thesis by (simp add: write_dirs_append)
  qed
qed

lemma process_building_dirs:
  "set (write_dirs (fst (process_building fmt house_key house_data))) \<subseteq>
     {house_dir (replace_empty ''building'' house_key)}"
proof (cases "map_of house_data ''elec''")
  case None
  then show ?thesis by (simp add: process_building_def)
next
  case (Some elec_group)
  obtain e labs where pm:
    "process_meters fmt (house_dir (replace_empty ''building'' house_key)) elec_group = (e, labs)"
    by (cases "process_meters fmt (house_dir (replace_empty ''building'' house_key)) elec_group")
  from process_meters_dirs[of fmt "house_dir (replace_empty ''building'' house_key)" elec_group] pm Some
  show ?thesis
    by (auto simp: process_building_def Let_def write_dirs_append)
qed

lemma fb_process_meter_dirs:
  "set (write_dirs (fst (fb_process_meter fmt store building_num meter_num))) \<subseteq>
     {house_dir (str_int building_num)}"
  by (auto simp: fb_process_meter_def split: sum.splits prod.splits)

lemma fb_process_meters_step:
  "fb_process_meters fmt store building_num (meter_num # rest) =
     (fst (fb_process_meter fmt store building_num meter_num) @
      fst (fb_process_meters fmt store building_num rest),
      (case snd (fb_process_meter fmt store building_num meter_num) of
         None \<Rightarrow> [] | Some l \<Rightarrow> [l]) @
      snd (fb_process_meters fmt store building_num rest))"
  by (simp split: prod.splits)

lemma fb_process_meters_dirs:
  "set (write_dirs (fst (fb_process_meters fmt store building_num ms))) \<subseteq>
     {house_dir (str_int building_num)}"
proof (induction ms)
  case Nil
  then show ?case by simp
next
  case (Cons m rest)
  with fb_process_meter_dirs[of fmt store building_num m] show ?case
    by (simp only: fb_process_meters_step fst_conv write_dirs_append set_append Un_subset_iff)
qed

lemma fb_process_building_dirs:
  "set (write_dirs (fst (fb_process_building fmt store building_num))) \<subseteq>
     {house_dir (str_int building_num)}"
proof -
  obtain e labs where pm: "fb_process_meters fmt store building_num [1..29] = (e, labs)"
    by (cases "fb_process_meters fmt store building_num [1..29]")
  from fb_process_meters_dirs[of fmt store building_num "[1..29]"] pm show ?thesis
    by (auto simp: fb_process_building_def Let_def write_dirs_append)
qed

lemma labels_file_of_ids:
  assumes "labels_written evs =
           (if channel_ids evs = [] then [] else [join [newline] (map label_line (channel_ids evs))])"
  shows "(channel_ids evs \<noteq> [] \<longrightarrow>
           (\<exists>content. labels_written evs = [content] \<and>
              split_on newline content = map label_line (channel_ids evs) \<and>
              map label_id (split_on newline content) = map Some (channel_ids evs))) \<and>
         (channel_ids evs = [] \<longrightarrow> labels_written evs = [])"
  using assms by (simp add: labels_content_lines label_id_label_line)

text \<open>
  C2. For a building processed by either converter: when at least one channel file is
  written, \<open>labels.dat\<close> is written exactly once, its lines are the label lines of the
  converted meters, one per channel file written and in the same order, and the meter
  numbers read back from the lines are the meter numbers of the channel files; when no
  channel file is written, no \<open>labels.dat\<close> is written. All the files of the
  building go to its own directory.
\<close>

theorem labels_match_channels:
  "(channel_ids (fst (process_building fmt house_key house_data)) \<noteq> [] \<longrightarrow>
      (\<exists>content.
          labels_written (fst (process_building fmt house_key house_data)) = [content] \<and>
          split_on newline content =
            map label_line (channel_ids (fst (process_building fmt house_key house_data))) \<and>
          map label_id (split_on newline content) =
            map Some (channel_ids (fst (process_building fmt house_key house_data))))) \<and>
   (channel_ids (fst (process_building fmt house_key house_data)) = [] \<longrightarrow>
      labels_written (fst (process_building fmt house_key house_data)) = []) \<and>
   set (write_dirs (fst (process_building fmt house_key house_data))) \<subseteq>
     {house_dir (replace_empty ''building'' house_key)} \<and>
   (channel_ids (fst (fb_process_building fmt' store building_num)) \<noteq> [] \<longrightarrow>
      (\<exists>content.
          labels_written (fst (fb_process_building fmt' store building_num)) = [content] \<and>
          split_on newline content =
            map label_line (channel_ids (fst (fb_process_building fmt' store building_num))) \<and>
          map label_id (split_on newline content) =
            map Some (channel_ids (fst (fb_process_building fmt' store building_num))))) \<and>
   (channel_ids (fst (fb_process_building fmt' store building_num)) = [] \<longrightarrow>
      labels_written (fst (fb_process_building fmt' store building_num)) = []) \<and>
   set (write_dirs (fst (fb_process_building fmt' store building_num))) \<subseteq>
     {house_dir (str_int building_num)}"
proof -
  let ?evs = "fst (process_building fmt house_key house_data)"
  let ?evs' = "fst (fb_process_building fmt' store building_num)"
  have a: "labels_written ?evs =
           (if channel_ids ?evs = [] then [] else [join [newline] (map label_line (channel_ids ?evs))])"
    using process_building_effects[of fmt house_key house_data] by (metis prod.collapse)
  have b: "labels_written ?evs' =
           (if channel_ids ?evs' = [] then []
            else [join [newline] (map label_line (channel_ids ?evs'))])"
    using fb_process_building_effects[of fmt' store building_num] by (metis prod.collapse)
  from labels_file_of_ids[OF a] labels_file_of_ids[OF b]
    process_building_dirs[of fmt house_key house_data]
    fb_process_building_dirs[of fmt' store building_num]
  show ?thesis by blast
qed

lemma scenario_building_events:
  "fst (process_building repr_decimal ''building3'' scenario_building) =
     [Mkdir ''house_3'',
      WriteChannel ''house_3'' 5 (''1000 12.5'' @ [newline] @ ''2000 0.0'' @ [newline]),
      Print (CreatedChannel 5 ''refrigerator'' 2),
      WriteLabels ''house_3'' ''5 refrigerator'', Print (CreatedLabels 1)]"
  by code_simp

lemma scenario_store_events:
  "fst (fb_process_building repr_decimal scenario_store 3) =
     [Print (Processing ''building3''), Mkdir ''house_3'',
      Print (FoundData 5 2),
      WriteChannel ''house_3'' 5 (''1000 12.5'' @ [newline] @ ''2000 0.0'' @ [newline]),
      Print (CreatedChannelFor 5 ''refrigerator''),
      WriteLabels ''house_3'' ''5 refrigerator'', Print (CreatedLabels 1)]"
  by code_simp

lemma empty_building_events:
  "fst (process_building repr_decimal ''building1'' []) =
     [Mkdir ''house_1'', Print (NoElecGroup ''building1'')]"
  by code_simp

lemma empty_store_building_events:
  "fst (fb_process_building repr_decimal [] 1) =
     [Print (Processing ''building1''), Mkdir ''house_1'', Print (NoDataFound 1)]"
  by code_simp

lemma label_line_5: "label_line 5 = ''5 refrigerator''"
  by code_simp

text \<open>
  The scenario building and an empty building, in both converters, as instances of
  \<open>labels_match_channels\<close>.
\<close>

theorem labels_match_channels_witness:
  "(\<exists>content.
      labels_written (fst (process_building repr_decimal ''building3'' scenario_building)) = [content] \<and>
      split_on newline content = [''5 refrigerator''] \<and>
      map label_id (split_on newline content) = [Some 5]) \<and>
   (\<exists>content.
      labels_written (fst (fb_process_building repr_decimal scenario_store 3)) = [content] \<and>
      split_on newline content = [''5 refrigerator''] \<and>
      map label_id (split_on newline content) = [Some 5]) \<and>
   labels_written (fst (process_building repr_decimal ''building1'' [])) = [] \<and>
   labels_written (fst (fb_process_building repr_decimal [] 1)) = []"
proof -
  have a: "channel_ids (fst (process_building repr_decimal ''building3'' scenario_building)) = [5]"
    by (simp add: scenario_building_events)
  have b: "channel_ids (fst (fb_process_building repr_decimal scenario_store 3)) = [5]"
    by (simp add: scenario_store_events)
  have c: "channel_ids (fst (process_building repr_decimal ''building1'' [])) = []"
    by (simp add: empty_building_events)
  have d: "channel_ids (fst (fb_process_building repr_decimal [] 1)) = []"
    by (simp add: empty_store_building_events)
  from labels_match_channels[of repr_decimal "''building3''" scenario_building repr_decimal scenario_store 3]
    labels_match_channels[of repr_decimal "''building1''" "[]" repr_decimal "[]" 1]
    a b c d
  show ?thesis by (simp add: label_line_5)
qed

section \<open>Resolution of the value column in the primary converter\<close>

lemma value_cols_first:
  assumes "value_fields data = pre @ (name, c) # post"
    and "\<forall>entry \<in> set pre. \<not> contains ''value'' (lower (fst entry))"
    and "contains ''value'' (lower name)"
  shows "value_cols data = name # filter (\<lambda>n. contains ''value'' (lower n)) (map fst post)"
    and "map_of (value_fields data) name = Some c"
proof -
  from assms(2) have none: "filter (\<lambda>n. contains ''value'' (lower n)) (map fst pre) = []"
    by (induction pre) auto
  with assms(1,3) show "value_cols data = name # filter (\<lambda>n. contains ''value'' (lower n)) (map fst post)"
    by (simp add: value_cols_def)
  from assms(2,3) have "name \<notin> fst ` set pre" by auto
  then have "map_of pre name = None" by (simp add: map_of_eq_None_iff)
  with assms(1) show "map_of (value_fields data) name = Some c"
    by (simp add: map_add_def)
qed

lemma value_cols_none:
  assumes "\<forall>entry \<in> set (value_fields data). \<not> contains ''value'' (lower (fst entry))"
  shows "value_cols data = []"
  using assms unfolding value_cols_def by (induction "value_fields data" arbitrary: data) (auto simp: filter_empty_conv)

lemma power_values_fixed_name:
  "map_of (value_fields data) ''values_block_0'' = Some c \<Longrightarrow> first_column c = Inr pv \<Longrightarrow>
   power_values meter_key data = Inr pv"
  by (simp add: power_values_def)

lemma power_values_first_match:
  assumes "map_of (value_fields data) ''values_block_0'' = None"
    and "value_fields data = pre @ (name, c) # post"
    and "\<forall>entry \<in> set pre. \<not> contains ''value'' (lower (fst entry))"
    and "contains ''value'' (lower name)"
    and "first_column c = Inr pv"
  shows "power_values meter_key data = Inr pv"
  using assms(1,5) value_cols_first[OF assms(2,3,4)]
  by (simp add: power_values_def)

lemma power_values_no_match:
  assumes "map_of (value_fields data) ''values_block_0'' = None"
    and "\<forall>entry \<in> set (value_fields data). \<not> contains ''value'' (lower (fst entry))"
  shows "power_values meter_key data = Inl (NoPowerValues meter_key)"
  using assms(1) value_cols_none[OF assms(2)]
  by (simp add: power_values_def)

lemma process_meter_converted:
  assumes "py_int (replace_empty ''meter'' meter_key) = Some meter_num"
    and "map_of meter_data ''table'' = Some (Table data)"
    and "0 < nrows data"
    and "index_field data = Some timestamps"
    and "power_values meter_key data = Inr pv"
    and "length pv = length timestamps"
  shows "process_meter fmt dir meter_key meter_data =
           ([WriteChannel dir meter_num (to_csv fmt (map ns_to_seconds timestamps) pv),
             Print (CreatedChannel meter_num (appliance_name meter_num) (length pv))],
            Some (label_line meter_num))"
  using assms by (simp add: process_meter_def read_table_def)

lemma process_meter_no_power_values:
  assumes "py_int (replace_empty ''meter'' meter_key) = Some meter_num"
    and "map_of meter_data ''table'' = Some (Table data)"
    and "0 < nrows data"
    and "index_field data = Some timestamps"
    and "power_values meter_key data = Inl d"
  shows "process_meter fmt dir meter_key meter_data = ([Print d], None)"
  using assms by (simp add: process_meter_def read_table_def)

lemma first_column_simps:
  "first_column (Col1 xs) = Inr xs"
  "\<forall>r \<in> set rows. r \<noteq> [] \<Longrightarrow> first_column (Col2 rows) = Inr (map hd rows)"
  "[] \<in> set rows \<Longrightarrow> first_column (Col2 rows) = Inl IndexError"
  by (auto simp: first_column_def list_ex_iff)

text \<open>
  C6. For a meter whose name yields a meter number and whose table has rows and the
  field \<open>index\<close>: the power values are the field \<open>values_block_0\<close> when the table
  has it; otherwise the first field, in dtype order, whose lower-cased name contains
  \<open>value\<close>; otherwise the meter is left with the diagnostic "No power values found"
  and neither a channel file nor a label line. Of a two-dimensional field only the first
  sub-field of each row is used.
\<close>

theorem value_column_resolution:
  assumes "py_int (replace_empty ''meter'' meter_key) = Some meter_num"
    and "map_of meter_data ''table'' = Some (Table data)"
    and "0 < nrows data"
    and "index_field data = Some timestamps"
  shows
    "(\<forall>c pv. map_of (value_fields data) ''values_block_0'' = Some c \<longrightarrow>
        first_column c = Inr pv \<longrightarrow> length pv = length timestamps \<longrightarrow>
        process_meter fmt dir meter_key meter_data =
          ([WriteChannel dir meter_num (to_csv fmt (map ns_to_seconds timestamps) pv),
            Print (CreatedChannel meter_num (appliance_name meter_num) (length pv))],
           Some (label_line meter_num))) \<and>
     (\<forall>pre name c post pv. map_of (value_fields data) ''values_block_0'' = None \<longrightarrow>
        value_fields data = pre @ (name, c) # post \<longrightarrow>
        (\<forall>entry \<in> set pre. \<not> contains ''value'' (lower (fst entry))) \<longrightarrow>
        contains ''value'' (lower name) \<longrightarrow>
        first_column c = Inr pv \<longrightarrow> length pv = length timestamps \<longrightarrow>
        process_meter fmt dir meter_key meter_data =
          ([WriteChannel dir meter_num (to_csv fmt (map ns_to_seconds timestamps) pv),
            Print (CreatedChannel meter_num (appliance_name meter_num) (length pv))],
           Some (label_line meter_num))) \<and>
     (map_of (value_fields data) ''values_block_0'' = None \<longrightarrow>
        (\<forall>entry \<in> set (value_fields data). \<not> contains ''value'' (lower (fst entry))) \<longrightarrow>
        process_meter fmt dir meter_key meter_data = ([Print (NoPowerValues meter_key)], None)) \<and>
     (\<forall>xs. first_column (Col1 xs) = Inr xs) \<and>
     (\<forall>rows. (\<forall>r \<in> set rows. r \<noteq> []) \<longrightarrow> first_column (Col2 rows) = Inr (map hd rows))"
proof (intro conjI allI impI)
  fix c pv
  assume a: "map_of (value_fields data) ''values_block_0'' = Some c" "first_column c = Inr pv"
    and len: "length pv = length timestamps"
  from a have "power_values meter_key data = Inr pv" by (rule power_values_fixed_name)
  from process_meter_converted[OF assms this len]
  show "process_meter fmt dir meter_key meter_data =
          ([WriteChannel dir meter_num (to_csv fmt (map ns_to_seconds timestamps) pv),
            Print (CreatedChannel meter_num (appliance_name meter_num) (length pv))],
           Some (label_line meter_num))" .
next
  fix pre name c post pv
  assume a: "map_of (value_fields data) ''values_block_0'' = None"
    "value_fields data = pre @ (name, c) # post"
    "\<forall>entry \<in> set pre. \<not> contains ''value'' (lower (fst entry))"
    "contains ''value'' (lower name)" "first_column c = Inr pv"
    and len: "length pv = length timestamps"
  from a have "power_values meter_key data = Inr pv" by (rule power_values_first_match)
  from process_meter_converted[OF assms this len]
  show "process_meter fmt dir meter_key meter_data =
          ([WriteChannel dir meter_num (to_csv fmt (map ns_to_seconds timestamps) pv),
            Print (CreatedChannel meter_num (appliance_name meter_num) (length pv))],
           Some (label_line meter_num))" .
next
  assume "map_of (value_fields data) ''values_block_0'' = None"
    "\<forall>entry \<in> set (value_fields data). \<not> contains ''value'' (lower (fst entry))"
  then have "power_values meter_key data = Inl (NoPowerValues meter_key)"
    by (rule power_values_no_match)
  from process_meter_no_power_values[OF assms this]
  show "process_meter fmt dir meter_key meter_data = ([Print (NoPowerValues meter_key)], None)" .
next
  fix xs :: "'b list"
  show "first_column (Col1 xs) = Inr xs" by (rule first_column_simps)
next
  fix rows :: "'c list list"
  assume "\<forall>r \<in> set rows. r \<noteq> []"
  then show "first_column (Col2 rows) = Inr (map hd rows)" by (rule first_column_simps)
qed

lemma scenario_csv:
  "to_csv repr_decimal (map ns_to_seconds [1000000000000, 2000000000000])
     [Decimal 125 1, Decimal 0 1] = ''1000 12.5'' @ [newline] @ ''2000 0.0'' @ [newline]"
  by code_simp

lemma meter5_number: "py_int (replace_empty ''meter'' ''meter5'') = Some 5"
  by code_simp

lemma appliance_name_5: "appliance_name 5 = ''refrigerator''"
  by code_simp

lemma lower_names:
  "contains ''value'' (lower ''Power_VALUES'')" "\<not> contains ''value'' (lower ''count'')"
  by code_simp+

text \<open>
  The three cases of \<open>value_column_resolution\<close> on the scenario table and its two
  variants.
\<close>

theorem value_column_resolution_witness:
  "process_meter repr_decimal ''house_3'' ''meter5'' [(''table'', Table scenario_table)] =
     ([WriteChannel ''house_3'' 5 (''1000 12.5'' @ [newline] @ ''2000 0.0'' @ [newline]),
       Print (CreatedChannel 5 ''refrigerator'' 2)], Some ''5 refrigerator'') \<and>
   process_meter repr_decimal ''house_3'' ''meter5'' [(''table'', Table searched_table)] =
     ([WriteChannel ''house_3'' 5 (''1000 12.5'' @ [newline] @ ''2000 0.0'' @ [newline]),
       Print (CreatedChannel 5 ''refrigerator'' 2)], Some ''5 refrigerator'') \<and>
   process_meter repr_decimal ''house_3'' ''meter5'' [(''table'', Table unlabelled_table)] =
     ([Print (NoPowerValues ''meter5'')], None)"
proof -
  let ?ts = "[1000000000000, 2000000000000] :: int list"
  let ?pv = "[Decimal 125 1, Decimal 0 1]"
  have len: "length [Decimal 125 1, Decimal 0 1] = 2" by simp
  note a = value_column_resolution[of "''meter5''" 5 "[(''table'', Table scenario_table)]"
      scenario_table ?ts repr_decimal "''house_3''", OF meter5_number]
  have "process_meter repr_decimal ''house_3'' ''meter5'' [(''table'', Table scenario_table)] =
          ([WriteChannel ''house_3'' 5 (to_csv repr_decimal (map ns_to_seconds ?ts) ?pv),
            Print (CreatedChannel 5 (appliance_name 5) (length ?pv))], Some (label_line 5))"
    by (rule a[THEN conjunct1, rule_format, of "Col1 ?pv" ?pv])
       (simp_all add: scenario_table_def first_column_def)
  then have 1: "process_meter repr_decimal ''house_3'' ''meter5'' [(''table'', Table scenario_table)] =
     ([WriteChannel ''house_3'' 5 (''1000 12.5'' @ [newline] @ ''2000 0.0'' @ [newline]),
       Print (CreatedChannel 5 ''refrigerator'' 2)], Some ''5 refrigerator'')"
    by (simp only: scenario_csv appliance_name_5 label_line_5 len)
  note b = value_column_resolution[of "''meter5''" 5 "[(''table'', Table searched_table)]"
      searched_table ?ts repr_decimal "''house_3''", OF meter5_number]
  have "process_meter repr_decimal ''house_3'' ''meter5'' [(''table'', Table searched_table)] =
          ([WriteChannel ''house_3'' 5 (to_csv repr_decimal (map ns_to_seconds ?ts) ?pv),
            Print (CreatedChannel 5 (appliance_name 5) (length ?pv))], Some (label_line 5))"
    by (rule b[THEN conjunct2, THEN conjunct1, rule_format,
          of "[(''count'', Col1 [Decimal 1 0, Decimal 2 0])]" "''Power_VALUES''"
             "Col2 [[Decimal 125 1, Decimal 7 0], [Decimal 0 1, Decimal 8 0]]" "[]" ?pv])
       (simp_all add: searched_table_def first_column_def lower_names)
  then have 2: "process_meter repr_decimal ''house_3'' ''meter5'' [(''table'', Table searched_table)] =
     ([WriteChannel ''house_3'' 5 (''1000 12.5'' @ [newline] @ ''2000 0.0'' @ [newline]),
       Print (CreatedChannel 5 ''refrigerator'' 2)], Some ''5 refrigerator'')"
    by (simp only: scenario_csv appliance_name_5 label_line_5 len)
  note c = value_column_resolution[of "''meter5''" 5 "[(''table'', Table unlabelled_table)]"
      unlabelled_table ?ts repr_decimal "''house_3''", OF meter5_number]
  have 3: "process_meter repr_decimal ''house_3'' ''meter5'' [(''table'', Table unlabelled_table)] =
     ([Print (NoPowerValues ''meter5'')], None)"
    by (rule c[THEN conjunct2, THEN conjunct2, THEN conjunct1, rule_format])
       (simp_all add: unlabelled_table_def lower_names)
  from 1 2 3 show ?thesis by blast
qed

section \<open>Meter names that give no meter number\<close>












section \<open>Timestamps of the fallback converter\<close>










section \<open>Errors in the fallback converter\<close>

lemma str_int_inject: "str_int a = str_int b \<Longrightarrow> a = b"
proof -
  assume "str_int a = str_int b"
  then have "py_int (str_int a) = py_int (str_int b)" by simp
  then show "a = b" by (simp add: py_int_str_int)
qed

lemma str_int_no_slash: "CHR ''/'' \<notin> set (str_int i)"
proof
  assume "CHR ''/'' \<in> set (str_int i)"
  with str_int_chars[of i] have "CHR ''/'' \<in> set ''-0123456789''" by (rule subsetD)
  then show False by simp
qed

lemma takeWhile_sep: "c \<notin> set xs \<Longrightarrow> takeWhile (\<lambda>x. x \<noteq> c) (xs @ c # r) = xs"
  by (induction xs) auto

lemma append_sep_inject:
  assumes "c \<notin> set xs" "c \<notin> set ys" "xs @ c # r = ys @ c # r'"
  shows "xs = ys \<and> r = r'"
proof -
  have "takeWhile (\<lambda>x. x \<noteq> c) (xs @ c # r) = xs" using assms(1) by (rule takeWhile_sep)
  moreover have "takeWhile (\<lambda>x. x \<noteq> c) (ys @ c # r') = ys" using assms(2) by (rule takeWhile_sep)
  ultimately have "xs = ys" using assms(3) by simp
  with assms(3) show ?thesis by simp
qed

lemma meter_table_key_inject:
  assumes "meter_table_key b m = meter_table_key b' m'"
  shows "b = b' \<and> m = m'"
proof -
  from assms have
    "str_int b @ CHR ''/'' # (''elec/meter'' @ str_int m @ ''/table'') =
     str_int b' @ CHR ''/'' # (''elec/meter'' @ str_int m' @ ''/table'')"
    by (simp add: meter_table_key_def)
  from append_sep_inject[OF str_int_no_slash str_int_no_slash this]
  have b: "str_int b = str_int b'"
    and "''elec/meter'' @ str_int m @ ''/table'' = ''elec/meter'' @ str_int m' @ ''/table''"
    by simp_all
  then have "str_int m @ CHR ''/'' # ''table'' = str_int m' @ CHR ''/'' # ''table''" by simp
  from append_sep_inject[OF str_int_no_slash str_int_no_slash this]
  have "str_int m = str_int m'" by simp
  with b show ?thesis by (simp add: str_int_inject)
qed

lemma fb_process_meter_local:
  "map_of store' (meter_table_key building_num meter_num) =
   map_of store (meter_table_key building_num meter_num) \<Longrightarrow>
   fb_process_meter fmt store' building_num meter_num =
   fb_process_meter fmt store building_num meter_num"
  by (simp add: fb_process_meter_def fb_read_meter_def)

lemma fb_process_meter_other_pair:
  assumes "(building_num, meter_num) \<noteq> (b0, m0)"
  shows "fb_process_meter fmt ((meter_table_key b0 m0, x) # store) building_num meter_num =
         fb_process_meter fmt store building_num meter_num"
proof (rule fb_process_meter_local)
  from assms meter_table_key_inject[of b0 m0 building_num meter_num]
  have "meter_table_key b0 m0 \<noteq> meter_table_key building_num meter_num" by auto
  then show "map_of ((meter_table_key b0 m0, x) # store) (meter_table_key building_num meter_num) =
             map_of store (meter_table_key building_num meter_num)"
    by simp
qed

lemma fb_process_meter_read_error:
  "fb_process_meter fmt ((meter_table_key b0 m0, ReadError e) # store) b0 m0 = ([], None)"
  by (simp add: fb_process_meter_def fb_read_meter_def)

lemma fb_process_meter_exception:
  assumes "fb_outcome store building_num meter_num = Inl (Exception e)"
  shows "snd (fb_process_meter fmt store building_num meter_num) = None \<and>
         channel_ids (fst (fb_process_meter fmt store building_num meter_num)) = [] \<and>
         (fst (fb_process_meter fmt store building_num meter_num) = [] \<or>
          (\<exists>n. fst (fb_process_meter fmt store building_num meter_num) =
                [Print (FoundData meter_num n)]))"
  using assms
  by (auto simp: fb_outcome_def fb_process_meter_def split: sum.splits)

lemma fb_process_meters_events:
  "fst (fb_process_meters fmt store building_num ms) =
   concat (map (\<lambda>m. fst (fb_process_meter fmt store building_num m)) ms)"
  by (induction ms) (simp_all only: fb_process_meters_step fb_process_meters.simps fst_conv
      list.map concat.simps)

lemma fb_building_loop_step:
  "fb_building_loop fmt store (building_num # rest) =
     (fst (fb_process_building fmt store building_num) @ fst (fb_building_loop fmt store rest),
      (if snd (fb_process_building fmt store building_num) then 1 else 0) +
      snd (fb_building_loop fmt store rest))"
  by (simp split: prod.splits)

lemma fb_building_loop_events:
  "fst (fb_building_loop fmt store bs) =
   concat (map (\<lambda>b. fst (fb_process_building fmt store b)) bs)"
  by (induction bs) (simp_all only: fb_building_loop_step fb_building_loop.simps fst_conv
      list.map concat.simps)

lemma fb_process_building_events:
  "\<exists>tail. fst (fb_process_building fmt store building_num) =
     [Print (Processing (''building'' @ str_int building_num)),
      Mkdir (house_dir (str_int building_num))] @
     concat (map (\<lambda>m. fst (fb_process_meter fmt store building_num m)) [1..29]) @ tail"
proof -
  obtain e labs where pm: "fb_process_meters fmt store building_num [1..29] = (e, labs)"
    by (cases "fb_process_meters fmt store building_num [1..29]")
  with fb_process_meters_events[of fmt store building_num "[1..29]"]
  have e: "e = concat (map (\<lambda>m. fst (fb_process_meter fmt store building_num m)) [1..29])"
    by simp
  show ?thesis
    using pm by (cases "labs = []") (simp_all add: fb_process_building_def Let_def e)
qed

lemma convert_h5_to_dat_pytables_events:
  "fst (convert_h5_to_dat_pytables fmt store) =
     [MkdirRoot, Print (AvailableKeys (map fst store))] @
     concat (map (\<lambda>b. fst (fb_process_building fmt store b)) [1..6]) @
     [Print (ConversionComplete (fst (snd (convert_h5_to_dat_pytables fmt store))))]"
  using fb_building_loop_events[of fmt store "[1..6]"]
  by (cases "fb_building_loop fmt store [1..6]") (simp add: convert_h5_to_dat_pytables_def)

text \<open>
  C7. In the fallback converter, a (building, meter) pair whose lookup, read or
  transformation raises yields no channel file and no label line, and prints nothing
  about the error: its only possible output is the line "Found data for meter ..."
  printed before the failing step. A read error of a pair leaves it with no event at
  all, and changing the store entry of one pair changes the events of no other pair.
  Every run visits every meter 1 to 29 of every building 1 to 6 and ends with the
  final summary, whatever the store holds.
\<close>

theorem fallback_errors_are_local:
  "(\<forall>e. fb_outcome store building_num meter_num = Inl (Exception e) \<longrightarrow>
      snd (fb_process_meter fmt store building_num meter_num) = None \<and>
      channel_ids (fst (fb_process_meter fmt store building_num meter_num)) = [] \<and>
      (fst (fb_process_meter fmt store building_num meter_num) = [] \<or>
       (\<exists>n. fst (fb_process_meter fmt store building_num meter_num) =
             [Print (FoundData meter_num n)]))) \<and>
   (\<forall>e. fb_process_meter fmt ((meter_table_key building_num meter_num, ReadError e) # store)
         building_num meter_num = ([], None)) \<and>
   (\<forall>b m x. (b, m) \<noteq> (building_num, meter_num) \<longrightarrow>
      fb_process_meter fmt ((meter_table_key building_num meter_num, x) # store) b m =
      fb_process_meter fmt store b m) \<and>
   (\<exists>tail. fst (fb_process_building fmt store building_num) =
      [Print (Processing (''building'' @ str_int building_num)),
       Mkdir (house_dir (str_int building_num))] @
      concat (map (\<lambda>m. fst (fb_process_meter fmt store building_num m)) [1..29]) @ tail) \<and>
   fst (convert_h5_to_dat_pytables fmt store) =
     [MkdirRoot, Print (AvailableKeys (map fst store))] @
     concat (map (\<lambda>b. fst (fb_process_building fmt store b)) [1..6]) @
     [Print (ConversionComplete (fst (snd (convert_h5_to_dat_pytables fmt store))))]"
  using fb_process_meter_exception[of store building_num meter_num _ fmt]
    fb_process_meter_read_error[of fmt building_num meter_num _ store]
    fb_process_meter_other_pair[of _ _ building_num meter_num fmt _ store]
    fb_process_building_events[of fmt store building_num]
    convert_h5_to_dat_pytables_events[of fmt store]
  by (intro conjI allI impI) blast+

lemma faulty_store_facts:
  "fb_outcome faulty_store 3 4 = Inl (Exception TypeError)"
  "fb_outcome faulty_store 3 6 = Inl (Exception IndexError)"
  "fb_process_meter repr_decimal faulty_store 3 6 = ([Print (FoundData 6 1)], None)"
  "fb_process_meter repr_decimal faulty_store 3 5 =
     ([Print (FoundData 5 2),
       WriteChannel ''house_3'' 5 (''1000 12.5'' @ [newline] @ ''2000 0.0'' @ [newline]),
       Print (CreatedChannelFor 5 ''refrigerator'')],
      Some ''5 refrigerator'')"
  "snd (convert_h5_to_dat_pytables repr_decimal faulty_store) = (1, True)"
  "faulty_store = (meter_table_key 3 4, ReadError TypeError) # tl faulty_store"
  by code_simp+

text \<open>
  On \<open>faulty_store\<close> the read of meter 4 raises, the block of meter 6 has no sub-field,
  and meter 5 is converted as if meter 4 were absent.
\<close>

theorem fallback_errors_are_local_witness:
  "fb_outcome faulty_store 3 4 = Inl (Exception TypeError) \<and>
   fb_process_meter repr_decimal faulty_store 3 4 = ([], None) \<and>
   fb_outcome faulty_store 3 6 = Inl (Exception IndexError) \<and>
   snd (fb_process_meter repr_decimal faulty_store 3 6) = None \<and>
   channel_ids (fst (fb_process_meter repr_decimal faulty_store 3 6)) = [] \<and>
   fb_process_meter repr_decimal faulty_store 3 5 =
     fb_process_meter repr_decimal (tl faulty_store) 3 5 \<and>
   channel_ids (fst (fb_process_meter repr_decimal faulty_store 3 5)) = [5] \<and>
   snd (convert_h5_to_dat_pytables repr_decimal faulty_store) = (1, True)"
proof -
  note t = fallback_errors_are_local[of "tl faulty_store" 3 4 repr_decimal]
  note u = fallback_errors_are_local[of faulty_store 3 6 repr_decimal]
  from t have "fb_process_meter repr_decimal ((meter_table_key 3 4, ReadError TypeError) # tl faulty_store) 3 4 = ([], None)"
    by blast
  with faulty_store_facts(6) have a: "fb_process_meter repr_decimal faulty_store 3 4 = ([], None)"
    by simp
  have "((3, 5) :: int \<times> int) \<noteq> (3, 4)" by simp
  with t have "fb_process_meter repr_decimal ((meter_table_key 3 4, ReadError TypeError) # tl faulty_store) 3 5 =
      fb_process_meter repr_decimal (tl faulty_store) 3 5"
    by blast
  with faulty_store_facts(6) have b: "fb_process_meter repr_decimal faulty_store 3 5 =
     fb_process_meter repr_decimal (tl faulty_store) 3 5"
    by simp
  from u faulty_store_facts(2)
  have c: "snd (fb_process_meter repr_decimal faulty_store 3 6) = None \<and>
           channel_ids (fst (fb_process_meter repr_decimal faulty_store 3 6)) = []"
    by blast
  have d: "channel_ids (fst (fb_process_meter repr_decimal faulty_store 3 5)) = [5]"
    by (simp add: faulty_store_facts(4))
  from a b c d faulty_store_facts(1,2,5) show ?thesis by blast
qed

section \<open>Directories of buildings without converted meters\<close>

lemma two_building_run:
  "convert_h5_to_dat_format repr_decimal two_building_h5 =
     (Raised TypeError,
      \<lparr>events =
         [MkdirRoot, Print (Processing ''building1''), Mkdir ''house_1'',
          WriteChannel ''house_1'' 5 (''1000 12.5'' @ [newline] @ ''2000 0.0'' @ [newline]),
          Print (CreatedChannel 5 ''refrigerator'' 2),
          WriteLabels ''house_1'' ''5 refrigerator'', Print (CreatedLabels 1),
          Print (Processing ''building2'')],
       processed_houses = 1, f_is_h5file = False\<rparr>)"
  by code_simp

lemma two_building_run_reversed:
  "convert_h5_to_dat_format repr_decimal (rev two_building_h5) =
     (Returned,
      \<lparr>events =
         [MkdirRoot, Print (Processing ''building2''), Mkdir ''house_2'',
          Print (NoElecGroup ''building2''),
          Print (Processing ''building1''), Mkdir ''house_1'',
          WriteChannel ''house_1'' 5 (''1000 12.5'' @ [newline] @ ''2000 0.0'' @ [newline]),
          Print (CreatedChannel 5 ''refrigerator'' 2),
          WriteLabels ''house_1'' ''5 refrigerator'', Print (CreatedLabels 1),
          Print (ConversionComplete 1)],
       processed_houses = 1, f_is_h5file = False\<rparr>)"
  by code_simp

text \<open>
  C8 at the container \<open>two_building_h5\<close>. \<open>with open(labels_file, 'w') as f\<close> (line 197)
  rebinds the variable that names the container, so after \<open>labels.dat\<close> of
  \<open>building1\<close> is written, \<open>f[house_key]\<close> (line 96) raises \<open>TypeError\<close> for \<open>building2\<close>
  before line 102 creates \<open>house_2\<close>: the run ends with the exception and the building
  without converted meters has no directory. With the two buildings in the other
  order, \<open>house_2\<close> is created and the run returns.
\<close>

theorem no_directory_after_converted_building:
  "fst (convert_h5_to_dat_format repr_decimal two_building_h5) = Raised TypeError \<and>
   dirs_created (events (snd (convert_h5_to_dat_format repr_decimal two_building_h5))) =
     [''house_1''] \<and>
   fst (convert_h5_to_dat_format repr_decimal (rev two_building_h5)) = Returned \<and>
   dirs_created (events (snd (convert_h5_to_dat_format repr_decimal (rev two_building_h5)))) =
     [''house_2'', ''house_1'']"
  by (simp add: two_building_run two_building_run_reversed)

lemma building_loop_invariant:
  "building_loop fmt h5 st = (out, st') \<Longrightarrow>
   processed_houses st \<le> 1 \<Longrightarrow> (f_is_h5file st \<longrightarrow> processed_houses st = 0) \<Longrightarrow>
   processed_houses st' \<le> 1"
proof (induction h5 arbitrary: st)
  case Nil
  then show ?case by simp
next
  case (Cons entry rest)
  obtain house_key house_data where entry: "entry = (house_key, house_data)"
    by (cases entry)
  show ?case
  proof (cases "startswith house_key ''building''")
    case False
    with Cons entry show ?thesis by simp
  next
    case True
    note sw = this
    show ?thesis
    proof (cases "f_is_h5file st")
      case False
      with Cons.prems entry sw show ?thesis by auto
    next
      case True
      obtain e1 wrote where pb: "process_building fmt house_key house_data = (e1, wrote)"
        by (cases "process_building fmt house_key house_data")
      let ?st = "\<lparr>events = events st @ [Print (Processing house_key)] @ e1,
                 processed_houses = processed_houses st + (if wrote then 1 else 0),
                 f_is_h5file = \<not> wrote\<rparr>"
      from Cons.prems(1) entry sw True pb have run: "building_loop fmt rest ?st = (out, st')"
        by simp
      from Cons.prems(3) True have "processed_houses ?st \<le> 1"
        and "f_is_h5file ?st \<longrightarrow> processed_houses ?st = 0"
        by simp_all
      from Cons.IH[OF run this] show ?thesis .
    qed
  qed
qed

text \<open>
  A consequence of the rebinding: no run of the primary converter counts more than one
  building as processed.
\<close>

lemma at_most_one_building_processed:
  "processed_houses (snd (convert_h5_to_dat_format fmt h5)) \<le> 1"
proof -
  let ?st0 = "\<lparr>events = [MkdirRoot], processed_houses = 0, f_is_h5file = True\<rparr>"
  obtain out st where run: "building_loop fmt h5 ?st0 = (out, st)"
    by (cases "building_loop fmt h5 ?st0")
  from building_loop_invariant[OF run] have "processed_houses st \<le> 1" by simp
  with run show ?thesis
    by (cases out) (simp_all add: convert_h5_to_dat_format_def)
qed

text \<open>
  The fallback converter creates the six directories \<open>house_1\<close> to \<open>house_6\<close> in every
  run, whatever the store holds.
\<close>

lemma fb_dirs_created:
  "dirs_created (fst (convert_h5_to_dat_pytables fmt store)) =
     map (\<lambda>b. house_dir (str_int b)) [1..6]"
proof -
  have "\<And>bs. dirs_created (concat (map (\<lambda>b. fst (fb_process_building fmt store b)) bs)) =
          map (\<lambda>b. house_dir (str_int b)) bs"
  proof -
    fix bs show "dirs_created (concat (map (\<lambda>b. fst (fb_process_building fmt store b)) bs)) =
          map (\<lambda>b. house_dir (str_int b)) bs"
    proof (induction bs)
      case Nil
      then show ?case by simp
    next
      case (Cons b bs)
      have "dirs_created (fst (fb_process_building fmt store b)) = [house_dir (str_int b)]"
        using fb_process_building_effects[of fmt store b] by (metis prod.collapse)
      with Cons show ?case by (simp add: dirs_created_append)
    qed
  qed
  then show ?thesis
    by (subst convert_h5_to_dat_pytables_events) (simp add: dirs_created_append)
qed

end
